theory Spec2Isabelle
  imports Main "HOL-Library.AList" "HOL-Library.Multiset"
begin

section \<open>Data model (config.py)\<close>

text \<open>
  Timestamps (\<^verbatim>\<open>datetime\<close>) are points on a linear time axis; they are only stored,
  copied and compared, so an integer stands for each of them.
\<close>

type_synonym datetime = int

text \<open>\<^verbatim>\<open>class Paper(BaseModel)\<close>; the field \<^verbatim>\<open>id\<close> is called \<open>paper_id\<close> here.\<close>

record Paper =
  paper_id :: string
  title :: string
  abstract :: string
  authors :: "string list"
  categories :: "string list"
  published :: datetime
  updated :: datetime
  arxiv_url :: string
  pdf_url :: string
  fetched_at :: datetime
  is_new :: bool

text \<open>
  \<^verbatim>\<open>class CategoryConfig(BaseModel)\<close>; \<open>default_max_results\<close> is the default of the field
  \<^verbatim>\<open>max_results\<close>, which the built-in configuration relies on.
\<close>

record CategoryConfig =
  category :: string
  enabled :: bool
  max_results :: int

definition default_max_results :: int where
  "default_max_results = 50"

text \<open>\<^verbatim>\<open>class FetchStatus(BaseModel)\<close>.\<close>

record FetchStatus =
  last_fetch :: "datetime option"
  papers_found :: int
  new_papers :: int
  status :: string
  message :: string

section \<open>Failures\<close>

text \<open>
  A raised Python exception is a value; \<open>str_exn\<close> is \<^verbatim>\<open>str(e)\<close>.
  \<^verbatim>\<open>HTTPException(status_code, detail)\<close> is what an endpoint raises to its caller.
\<close>

datatype exn = Exception string

fun str_exn :: "exn \<Rightarrow> string" where
  "str_exn (Exception m) = m"

datatype http_error = HTTPException int string

section \<open>Persistent storage (storage.py)\<close>

text \<open>
  Each of the four JSON files either does not exist, exists but cannot be decoded into
  the expected shape (\<^verbatim>\<open>json.load\<close> or the model constructor raises), or holds a value.
  A dictionary keeps its insertion order, so the papers are an association list;
  the seen identifiers are loaded into a set.
\<close>

datatype 'a json_file = Missing | Corrupt exn | Stored 'a

record DataStorage =
  papers_file :: "(string \<times> Paper) list json_file"
  seen_file :: "string set json_file"
  config_file :: "CategoryConfig list json_file"
  status_file :: "FetchStatus json_file"

definition load_papers :: "DataStorage \<Rightarrow> exn + (string \<times> Paper) list" where
  "load_papers st =
     (case papers_file st of
        Stored d \<Rightarrow> Inr d
      | Corrupt e \<Rightarrow> Inl e
      | Missing \<Rightarrow> Inr [])"

definition save_papers :: "(string \<times> Paper) list \<Rightarrow> DataStorage \<Rightarrow> DataStorage" where
  "save_papers papers st = st\<lparr>papers_file := Stored papers\<rparr>"

definition load_seen_ids :: "DataStorage \<Rightarrow> exn + string set" where
  "load_seen_ids st =
     (case seen_file st of
        Stored s \<Rightarrow> Inr s
      | Corrupt e \<Rightarrow> Inl e
      | Missing \<Rightarrow> Inr {})"

definition save_seen_ids :: "string set \<Rightarrow> DataStorage \<Rightarrow> DataStorage" where
  "save_seen_ids seen_ids st = st\<lparr>seen_file := Stored seen_ids\<rparr>"

definition load_config :: "DataStorage \<Rightarrow> exn + CategoryConfig list" where
  "load_config st =
     (case config_file st of
        Stored c \<Rightarrow> Inr c
      | Corrupt e \<Rightarrow> Inl e
      | Missing \<Rightarrow> Inr
          [\<lparr>category = ''cs.CV'', enabled = True, max_results = default_max_results\<rparr>,
           \<lparr>category = ''cs.LG'', enabled = True, max_results = default_max_results\<rparr>,
           \<lparr>category = ''cs.AI'', enabled = True, max_results = default_max_results\<rparr>])"

definition save_config :: "CategoryConfig list \<Rightarrow> DataStorage \<Rightarrow> DataStorage" where
  "save_config config st = st\<lparr>config_file := Stored config\<rparr>"

definition load_status :: "DataStorage \<Rightarrow> exn + FetchStatus option" where
  "load_status st =
     (case status_file st of
        Stored s \<Rightarrow> Inr (Some s)
      | Corrupt e \<Rightarrow> Inl e
      | Missing \<Rightarrow> Inr None)"

definition save_status :: "FetchStatus \<Rightarrow> DataStorage \<Rightarrow> DataStorage" where
  "save_status s st = st\<lparr>status_file := Stored s\<rparr>"

section \<open>The fetch-merge cycle (main.py)\<close>

text \<open>
  \<^verbatim>\<open>ArXivClient.fetch_papers(category, max_results)\<close> talks to the network: it either
  raises or returns a list of papers. The upstream service is a parameter of the model;
  its answer may depend on the requests made before, which are logged.
\<close>

type_synonym request = "string \<times> int"
type_synonym upstream = "request list \<Rightarrow> request \<Rightarrow> exn + Paper list"

text \<open>
  The loop over the configuration: \<^verbatim>\<open>for cat_config in config: if cat_config.enabled: ...\<close>.
  There is no handler inside the loop, so the first fetch that raises ends it.
\<close>

fun fetch_categories ::
  "upstream \<Rightarrow> CategoryConfig list \<Rightarrow> request list \<Rightarrow> Paper list
     \<Rightarrow> request list \<times> (exn + Paper list)" where
  "fetch_categories up [] reqs all_papers = (reqs, Inr all_papers)"
| "fetch_categories up (c # cs) reqs all_papers =
     (if enabled c then
        (case up reqs (category c, max_results c) of
           Inl e \<Rightarrow> (reqs @ [(category c, max_results c)], Inl e)
         | Inr papers \<Rightarrow>
             fetch_categories up cs (reqs @ [(category c, max_results c)]) (all_papers @ papers))
      else fetch_categories up cs reqs all_papers)"

text \<open>
  The merge loop \<^verbatim>\<open>for paper in all_papers\<close>: the flag is set on the paper, the counter and
  the seen set are updated, and the paper is stored under its identifier
  (\<^verbatim>\<open>existing_papers[paper.id] = paper\<close>: an existing key keeps its place, a new key is
  appended).
\<close>

fun merge_papers ::
  "Paper list \<Rightarrow> (string \<times> Paper) list \<Rightarrow> string set \<Rightarrow> nat
     \<Rightarrow> (string \<times> Paper) list \<times> string set \<times> nat" where
  "merge_papers [] existing_papers seen_ids new_count = (existing_papers, seen_ids, new_count)"
| "merge_papers (paper # rest) existing_papers seen_ids new_count =
     (if paper_id paper \<notin> seen_ids then
        merge_papers rest
          (AList.update (paper_id paper) (paper\<lparr>is_new := True\<rparr>) existing_papers)
          (insert (paper_id paper) seen_ids)
          (new_count + 1)
      else
        merge_papers rest
          (AList.update (paper_id paper) (paper\<lparr>is_new := False\<rparr>) existing_papers)
          seen_ids
          new_count)"

text \<open>Decimal digits of a number, for the f-string of the status message.\<close>

fun str_nat :: "nat \<Rightarrow> string" where
  "str_nat n =
     (if n < 10 then [''0123456789'' ! n]
      else str_nat (n div 10) @ [''0123456789'' ! (n mod 10)])"

declare str_nat.simps [simp del]

definition success_status :: "datetime \<Rightarrow> nat \<Rightarrow> nat \<Rightarrow> FetchStatus" where
  "success_status now found new_count =
     \<lparr>last_fetch = Some now,
      papers_found = int found,
      new_papers = int new_count,
      status = ''success'',
      message = ''Fetched '' @ str_nat found @ '' papers, '' @ str_nat new_count @ '' new''\<rparr>"

definition error_status :: "datetime \<Rightarrow> exn \<Rightarrow> FetchStatus" where
  "error_status now e =
     \<lparr>last_fetch = Some now,
      papers_found = 0,
      new_papers = 0,
      status = ''error'',
      message = str_exn e\<rparr>"

text \<open>
  The body of the \<^verbatim>\<open>try\<close> block, which is the same text in \<^verbatim>\<open>periodic_fetch\<close> and in
  \<^verbatim>\<open>fetch_papers_now\<close>. It returns the requests made, the storage as it is when the block
  is left, and either the exception that left it or the pair
  \<^verbatim>\<open>(len(all_papers), new_count)\<close>.
\<close>

definition fetch_merge ::
  "upstream \<Rightarrow> datetime \<Rightarrow> DataStorage \<Rightarrow> request list \<times> DataStorage \<times> (exn + nat \<times> nat)" where
  "fetch_merge up now st =
     (case load_config st of
        Inl e \<Rightarrow> ([], st, Inl e)
      | Inr config \<Rightarrow>
     (case fetch_categories up config [] [] of
        (reqs, Inl e) \<Rightarrow> (reqs, st, Inl e)
      | (reqs, Inr all_papers) \<Rightarrow>
     (case load_seen_ids st of
        Inl e \<Rightarrow> (reqs, st, Inl e)
      | Inr seen_ids \<Rightarrow>
     (case load_papers st of
        Inl e \<Rightarrow> (reqs, st, Inl e)
      | Inr existing_papers \<Rightarrow>
     (case merge_papers all_papers existing_papers seen_ids 0 of
        (existing_papers', seen_ids', new_count) \<Rightarrow>
          (reqs,
           save_status (success_status now (length all_papers) new_count)
             (save_seen_ids seen_ids' (save_papers existing_papers' st)),
           Inr (length all_papers, new_count)))))))"

text \<open>
  One iteration of the \<^verbatim>\<open>while app_state["auto_fetch_enabled"]\<close> loop of
  \<^verbatim>\<open>periodic_fetch\<close>, up to the sleep: the \<^verbatim>\<open>except Exception\<close> handler saves an error
  status and the iteration ends normally.
\<close>

definition periodic_fetch :: "upstream \<Rightarrow> datetime \<Rightarrow> DataStorage \<Rightarrow> request list \<times> DataStorage" where
  "periodic_fetch up now st =
     (case fetch_merge up now st of
        (reqs, st', Inr r) \<Rightarrow> (reqs, st')
      | (reqs, st', Inl e) \<Rightarrow> (reqs, save_status (error_status now e) st'))"

text \<open>
  \<^verbatim>\<open>POST /api/fetch\<close>: the handler of \<^verbatim>\<open>fetch_papers_now\<close> raises
  \<^verbatim>\<open>HTTPException(status_code=500, detail=str(e))\<close>.
\<close>

record fetch_response =
  resp_status :: string
  papers_fetched :: int
  resp_new_papers :: int

definition fetch_papers_now ::
  "upstream \<Rightarrow> datetime \<Rightarrow> DataStorage
     \<Rightarrow> request list \<times> DataStorage \<times> (http_error + fetch_response)" where
  "fetch_papers_now up now st =
     (case fetch_merge up now st of
        (reqs, st', Inr (found, new_count)) \<Rightarrow>
          (reqs, st',
           Inr \<lparr>resp_status = ''success'', papers_fetched = int found,
                resp_new_papers = int new_count\<rparr>)
      | (reqs, st', Inl e) \<Rightarrow> (reqs, st', Inl (HTTPException 500 (str_exn e))))"

section \<open>The other endpoints (main.py)\<close>

text \<open>
  \<^verbatim>\<open>sorted(papers.values(), key=lambda p: p.updated, reverse=True)\<close>: a stable sort in
  descending order, which is the stable ascending sort of the reversed list, reversed.
\<close>

definition sorted_reverse :: "('a \<Rightarrow> 'k::linorder) \<Rightarrow> 'a list \<Rightarrow> 'a list" where
  "sorted_reverse key xs = rev (sort_key key (rev xs))"

definition get_papers :: "DataStorage \<Rightarrow> exn + Paper list" where
  "get_papers st =
     (case load_papers st of
        Inl e \<Rightarrow> Inl e
      | Inr papers \<Rightarrow> Inr (sorted_reverse updated (map snd papers)))"

definition no_data_status :: FetchStatus where
  "no_data_status =
     \<lparr>last_fetch = None, papers_found = 0, new_papers = 0,
      status = ''no_data'', message = ''No fetches performed yet''\<rparr>"

definition get_status :: "DataStorage \<Rightarrow> exn + FetchStatus" where
  "get_status st =
     (case load_status st of
        Inl e \<Rightarrow> Inl e
      | Inr None \<Rightarrow> Inr no_data_status
      | Inr (Some s) \<Rightarrow> Inr s)"

text \<open>
  \<^verbatim>\<open>mark_all_seen\<close>: both datasets are loaded, then every stored paper is flagged as
  seen and its key added to the seen set, then both are saved. It has no handler.
\<close>

definition mark_all_seen :: "DataStorage \<Rightarrow> DataStorage \<times> (exn + string \<times> string)" where
  "mark_all_seen st =
     (case load_papers st of
        Inl e \<Rightarrow> (st, Inl e)
      | Inr papers \<Rightarrow>
     (case load_seen_ids st of
        Inl e \<Rightarrow> (st, Inl e)
      | Inr seen_ids \<Rightarrow>
          (save_seen_ids (seen_ids \<union> set (map fst papers))
             (save_papers (map (\<lambda>(k, p). (k, p\<lparr>is_new := False\<rparr>)) papers) st),
           Inr (''success'', ''All papers marked as seen''))))"

definition get_config :: "DataStorage \<Rightarrow> exn + CategoryConfig list" where
  "get_config st = load_config st"

definition update_config :: "CategoryConfig list \<Rightarrow> DataStorage \<Rightarrow> DataStorage \<times> string \<times> string" where
  "update_config config st = (save_config config st, (''success'', ''Configuration updated''))"

definition cleared_status :: FetchStatus where
  "cleared_status =
     \<lparr>last_fetch = None, papers_found = 0, new_papers = 0,
      status = ''cleared'', message = ''All data cleared''\<rparr>"

definition clear_all_data :: "DataStorage \<Rightarrow> DataStorage \<times> string \<times> string" where
  "clear_all_data st =
     (save_status cleared_status (save_seen_ids {} (save_papers [] st)),
      (''success'', ''All data cleared''))"

text \<open>
  The application state: the storage and the flag \<^verbatim>\<open>auto_fetch_enabled\<close>. The operations
  of the system are the endpoints and the tick of the background task; \<open>exec\<close> gives the
  state each of them leaves.
\<close>

record app_state =
  storage :: DataStorage
  auto_fetch_enabled :: bool

definition toggle_auto_fetch :: "app_state \<Rightarrow> app_state \<times> bool" where
  "toggle_auto_fetch s =
     (s\<lparr>auto_fetch_enabled := \<not> auto_fetch_enabled s\<rparr>, \<not> auto_fetch_enabled s)"

datatype operation =
    Root
  | GetPapers
  | FetchPapersNow upstream datetime
  | PeriodicFetch upstream datetime
  | GetStatus
  | MarkAllSeen
  | ToggleAutoFetch
  | GetConfig
  | UpdateConfig "CategoryConfig list"
  | ClearAllData

fun exec :: "operation \<Rightarrow> app_state \<Rightarrow> app_state" where
  "exec Root s = s"
| "exec GetPapers s = s"
| "exec (FetchPapersNow up now) s = s\<lparr>storage := fst (snd (fetch_papers_now up now (storage s)))\<rparr>"
| "exec (PeriodicFetch up now) s = s\<lparr>storage := snd (periodic_fetch up now (storage s))\<rparr>"
| "exec GetStatus s = s"
| "exec MarkAllSeen s = s\<lparr>storage := fst (mark_all_seen (storage s))\<rparr>"
| "exec ToggleAutoFetch s = fst (toggle_auto_fetch s)"
| "exec GetConfig s = s"
| "exec (UpdateConfig config) s = s\<lparr>storage := fst (update_config config (storage s))\<rparr>"
| "exec ClearAllData s = s\<lparr>storage := fst (clear_all_data (storage s))\<rparr>"

section \<open>Concrete scenarios\<close>

text \<open>A fresh installation: none of the four files exists.\<close>

definition empty_storage :: DataStorage where
  "empty_storage =
     \<lparr>papers_file = Missing, seen_file = Missing, config_file = Missing, status_file = Missing\<rparr>"

text \<open>A paper as \<^verbatim>\<open>fetch_papers\<close> builds it: both URLs derived from the identifier, flagged new.\<close>

definition mk_paper :: "string \<Rightarrow> string \<Rightarrow> datetime \<Rightarrow> Paper" where
  "mk_paper ident ttl upd =
     \<lparr>paper_id = ident, title = ttl, abstract = [], authors = [], categories = [],
      published = upd, updated = upd,
      arxiv_url = ''https://arxiv.org/abs/'' @ ident,
      pdf_url = ''https://arxiv.org/pdf/'' @ ident @ ''.pdf'',
      fetched_at = upd, is_new = True\<rparr>"

text \<open>An upstream that lists the same paper under \<^verbatim>\<open>cs.CV\<close> and \<^verbatim>\<open>cs.LG\<close> (a cross-listed paper).\<close>

definition up_cross_listed :: upstream where
  "up_cross_listed reqs r =
     (if fst r = ''cs.CV'' \<or> fst r = ''cs.LG'' then Inr [mk_paper ''2401.00001v1'' ''T'' 1]
      else Inr [])"

text \<open>An upstream that answers \<^verbatim>\<open>cs.CV\<close> with status 503 and every other category with one paper.\<close>

definition up_cv_down :: upstream where
  "up_cv_down reqs r =
     (if fst r = ''cs.CV'' then Inl (Exception ''503: ArXiv API error: 503'')
      else Inr [mk_paper ''2401.00002v1'' ''U'' 2])"

text \<open>An upstream that answers \<^verbatim>\<open>cs.CV\<close> with the given papers and the other categories with none.\<close>

definition up_only_cv :: "Paper list \<Rightarrow> upstream" where
  "up_only_cv ps reqs r = (if fst r = ''cs.CV'' then Inr ps else Inr [])"

text \<open>Two papers with different identifiers, as one category would return them.\<close>

definition two_papers :: "Paper list" where
  "two_papers = [mk_paper ''2401.00001v1'' ''T'' 1, mk_paper ''2401.00002v1'' ''U'' 2]"

text \<open>A store that holds one older paper, already seen.\<close>

definition storage_one_old :: DataStorage where
  "storage_one_old =
     empty_storage
       \<lparr>papers_file := Stored [(''2312.00009v2'', mk_paper ''2312.00009v2'' ''Old'' 0)],
        seen_file := Stored {''2312.00009v2''}\<rparr>"

section \<open>Properties of fetching and merging\<close>

lemma merge_papers_seen:
  "merge_papers ps ex seen n = (ex', seen', n') \<Longrightarrow> seen' = seen \<union> paper_id ` set ps"
  by (induction ps arbitrary: ex seen n) (auto split: if_splits)

lemma merge_papers_count:
  "finite seen \<Longrightarrow> merge_papers ps ex seen n = (ex', seen', n')
     \<Longrightarrow> n' = n + card (paper_id ` set ps - seen)"
proof (induction ps arbitrary: ex seen n)
  case Nil
  then show ?case by simp
next
  case (Cons p ps)
  show ?case
  proof (cases "paper_id p \<in> seen")
    case True
    then have "merge_papers ps (AList.update (paper_id p) (p\<lparr>is_new := False\<rparr>) ex) seen n
                 = (ex', seen', n')"
      using Cons.prems by simp
    from Cons.IH[OF Cons.prems(1) this] True show ?thesis
      by (simp add: insert_Diff_if)
  next
    case False
    then have m: "merge_papers ps (AList.update (paper_id p) (p\<lparr>is_new := True\<rparr>) ex)
                    (insert (paper_id p) seen) (n + 1) = (ex', seen', n')"
      using Cons.prems by simp
    have f: "finite (insert (paper_id p) seen)"
      using Cons.prems(1) by simp
    have "paper_id ` set (p # ps) - seen
            = insert (paper_id p) (paper_id ` set ps - insert (paper_id p) seen)"
      using False by auto
    moreover have "paper_id p \<notin> paper_id ` set ps - insert (paper_id p) seen"
      by simp
    ultimately have "card (paper_id ` set (p # ps) - seen)
                       = Suc (card (paper_id ` set ps - insert (paper_id p) seen))"
      by (simp add: card_insert_if)
    with Cons.IH[OF f m] show ?thesis by simp
  qed
qed

lemma merge_papers_seen_all:
  "paper_id ` set ps \<subseteq> seen \<Longrightarrow> \<exists>ex'. merge_papers ps ex seen n = (ex', seen, n)"
  by (induction ps arbitrary: ex) auto

lemma merge_papers_other:
  "merge_papers ps ex seen n = (ex', seen', n') \<Longrightarrow> k \<notin> paper_id ` set ps
     \<Longrightarrow> map_of ex' k = map_of ex k"
  by (induction ps arbitrary: ex seen n) (auto split: if_splits simp: update_conv')

lemma update_keys_set: "fst ` set (AList.update k v al) = insert k (fst ` set al)"
  by (induction al) auto

lemma merge_papers_keys:
  "merge_papers ps ex seen n = (ex', seen', n')
     \<Longrightarrow> fst ` set ex' = fst ` set ex \<union> paper_id ` set ps"
proof (induction ps arbitrary: ex seen n)
  case Nil
  then show ?case by simp
next
  case (Cons p ps)
  show ?case
  proof (cases "paper_id p \<in> seen")
    case True
    with Cons.prems
    have "merge_papers ps (AList.update (paper_id p) (p\<lparr>is_new := False\<rparr>) ex) seen n
            = (ex', seen', n')"
      by simp
    from Cons.IH[OF this] show ?thesis by (simp add: update_keys_set)
  next
    case False
    with Cons.prems
    have "merge_papers ps (AList.update (paper_id p) (p\<lparr>is_new := True\<rparr>) ex)
            (insert (paper_id p) seen) (n + 1) = (ex', seen', n')"
      by simp
    from Cons.IH[OF this] show ?thesis by (simp add: update_keys_set)
  qed
qed

lemma merge_papers_append:
  "merge_papers (xs @ ys) ex seen n =
     (case merge_papers xs ex seen n of (e1, s1, n1) \<Rightarrow> merge_papers ys e1 s1 n1)"
  by (induction xs arbitrary: ex seen n) auto

lemma merge_papers_last:
  assumes "merge_papers (pre @ p # post) ex seen n = (ex', seen', n')"
    and "paper_id p \<notin> paper_id ` set post"
  shows "map_of ex' (paper_id p)
           = Some (p\<lparr>is_new := (paper_id p \<notin> seen \<union> paper_id ` set pre)\<rparr>)"
proof -
  obtain e1 s1 n1 where m1: "merge_papers pre ex seen n = (e1, s1, n1)"
    by (metis prod_cases3)
  then have s1: "s1 = seen \<union> paper_id ` set pre"
    by (rule merge_papers_seen)
  from assms(1) m1 have m2: "merge_papers (p # post) e1 s1 n1 = (ex', seen', n')"
    by (simp add: merge_papers_append)
  show ?thesis
  proof (cases "paper_id p \<in> s1")
    case True
    with m2
    have "merge_papers post (AList.update (paper_id p) (p\<lparr>is_new := False\<rparr>) e1) s1 n1
            = (ex', seen', n')"
      by simp
    from merge_papers_other[OF this assms(2)] True s1 show ?thesis
      by (simp add: update_conv')
  next
    case False
    with m2
    have "merge_papers post (AList.update (paper_id p) (p\<lparr>is_new := True\<rparr>) e1)
            (insert (paper_id p) s1) (n1 + 1) = (ex', seen', n')"
      by simp
    from merge_papers_other[OF this assms(2)] False s1 show ?thesis
      by (simp add: update_conv')
  qed
qed

lemma fetch_categories_append:
  "fetch_categories up (xs @ ys) reqs all_papers =
     (case fetch_categories up xs reqs all_papers of
        (r, Inl e) \<Rightarrow> (r, Inl e)
      | (r, Inr a) \<Rightarrow> fetch_categories up ys r a)"
  by (induction xs arbitrary: reqs all_papers) (auto split: sum.splits)

lemma sorted_reverse_mset: "mset (sorted_reverse key xs) = mset xs"
  by (simp add: sorted_reverse_def)

lemma sorted_reverse_sorted: "sorted_wrt (\<lambda>a b. key a \<ge> key b) (sorted_reverse key xs)"
proof -
  have "sorted (map key (sort_key key (rev xs)))"
    by simp
  then have "sorted_wrt (\<lambda>a b. key a \<le> key b) (sort_key key (rev xs))"
    by (simp add: sorted_map)
  then show ?thesis
    by (simp add: sorted_reverse_def sorted_wrt_rev)
qed

section \<open>The cycle as a whole\<close>

lemma fetch_merge_success:
  assumes "load_config st = Inr cfg"
    and "fetch_categories up cfg [] [] = (reqs, Inr cands)"
    and "load_seen_ids st = Inr seen"
    and "load_papers st = Inr ex"
    and "merge_papers cands ex seen 0 = (ex', seen', k)"
  shows "fetch_merge up now st =
           (reqs,
            st\<lparr>papers_file := Stored ex', seen_file := Stored seen',
               status_file := Stored (success_status now (length cands) k)\<rparr>,
            Inr (length cands, k))"
  using assms by (simp add: fetch_merge_def save_papers_def save_seen_ids_def save_status_def)

lemma fetch_merge_InrD:
  assumes "fetch_merge up now st = (reqs, st', Inr r)"
  shows "\<exists>cfg cands seen ex ex' seen' k.
           load_config st = Inr cfg \<and> fetch_categories up cfg [] [] = (reqs, Inr cands) \<and>
           load_seen_ids st = Inr seen \<and> load_papers st = Inr ex \<and>
           merge_papers cands ex seen 0 = (ex', seen', k) \<and>
           st' = st\<lparr>papers_file := Stored ex', seen_file := Stored seen',
                    status_file := Stored (success_status now (length cands) k)\<rparr> \<and>
           r = (length cands, k)"
  using assms
  by (auto simp: fetch_merge_def save_papers_def save_seen_ids_def save_status_def
           split: sum.splits prod.splits)

lemma fetch_merge_InlD:
  "fetch_merge up now st = (reqs, st', Inl e) \<Longrightarrow> st' = st"
  by (auto simp: fetch_merge_def split: sum.splits prod.splits)

section \<open>Evaluating the scenarios\<close>

lemma default_config_empty_storage:
  "load_config empty_storage =
     Inr [\<lparr>category = ''cs.CV'', enabled = True, max_results = 50\<rparr>,
          \<lparr>category = ''cs.LG'', enabled = True, max_results = 50\<rparr>,
          \<lparr>category = ''cs.AI'', enabled = True, max_results = 50\<rparr>]"
  by (simp add: load_config_def empty_storage_def default_max_results_def)

lemma fetch_cross_listed:
  "fetch_categories up_cross_listed
     [\<lparr>category = ''cs.CV'', enabled = True, max_results = 50\<rparr>,
      \<lparr>category = ''cs.LG'', enabled = True, max_results = 50\<rparr>,
      \<lparr>category = ''cs.AI'', enabled = True, max_results = 50\<rparr>] [] []
   = ([(''cs.CV'', 50), (''cs.LG'', 50), (''cs.AI'', 50)],
      Inr [mk_paper ''2401.00001v1'' ''T'' 1, mk_paper ''2401.00001v1'' ''T'' 1])"
  by (simp add: up_cross_listed_def)

lemma fetch_cv_down:
  "fetch_categories up_cv_down
     [\<lparr>category = ''cs.CV'', enabled = True, max_results = 50\<rparr>,
      \<lparr>category = ''cs.LG'', enabled = True, max_results = 50\<rparr>,
      \<lparr>category = ''cs.AI'', enabled = True, max_results = 50\<rparr>] [] []
   = ([(''cs.CV'', 50)], Inl (Exception ''503: ArXiv API error: 503''))"
  by (simp add: up_cv_down_def)

lemma fetch_only_cv:
  "fetch_categories (up_only_cv ps)
     [\<lparr>category = ''cs.CV'', enabled = True, max_results = 50\<rparr>,
      \<lparr>category = ''cs.LG'', enabled = True, max_results = 50\<rparr>,
      \<lparr>category = ''cs.AI'', enabled = True, max_results = 50\<rparr>] [] []
   = ([(''cs.CV'', 50), (''cs.LG'', 50), (''cs.AI'', 50)], Inr ps)"
  by (simp add: up_only_cv_def)

lemma load_empty_storage:
  "load_seen_ids empty_storage = Inr {}" "load_papers empty_storage = Inr []"
  by (simp_all add: load_seen_ids_def load_papers_def empty_storage_def)

lemma fetch_merge_cv_down:
  "fetch_merge up_cv_down now empty_storage
     = ([(''cs.CV'', 50)], empty_storage, Inl (Exception ''503: ArXiv API error: 503''))"
  by (simp add: fetch_merge_def default_config_empty_storage fetch_cv_down
        del: fetch_categories.simps)

lemma fetch_merge_cross_listed:
  "fetch_merge up_cross_listed now empty_storage
     = ([(''cs.CV'', 50), (''cs.LG'', 50), (''cs.AI'', 50)],
        empty_storage
          \<lparr>papers_file :=
             Stored [(''2401.00001v1'', (mk_paper ''2401.00001v1'' ''T'' 1)\<lparr>is_new := False\<rparr>)],
           seen_file := Stored {''2401.00001v1''},
           status_file := Stored (success_status now 2 1)\<rparr>,
        Inr (2, 1))"
  by (simp add: fetch_merge_def default_config_empty_storage fetch_cross_listed
        load_empty_storage save_papers_def save_seen_ids_def save_status_def mk_paper_def
        numeral_2_eq_2 del: fetch_categories.simps)

lemma fetch_merge_two_papers:
  "fetch_merge (up_only_cv two_papers) now empty_storage
     = ([(''cs.CV'', 50), (''cs.LG'', 50), (''cs.AI'', 50)],
        empty_storage
          \<lparr>papers_file :=
             Stored [(''2401.00001v1'', mk_paper ''2401.00001v1'' ''T'' 1),
                     (''2401.00002v1'', mk_paper ''2401.00002v1'' ''U'' 2)],
           seen_file := Stored {''2401.00002v1'', ''2401.00001v1''},
           status_file := Stored (success_status now (length two_papers) 2)\<rparr>,
        Inr (length two_papers, 2))"
  by (simp add: fetch_merge_def default_config_empty_storage fetch_only_cv
        load_empty_storage save_papers_def save_seen_ids_def save_status_def
        two_papers_def mk_paper_def numeral_2_eq_2 del: fetch_categories.simps)

lemma fetch_merge_one_old:
  "fetch_merge (up_only_cv two_papers) now storage_one_old
     = ([(''cs.CV'', 50), (''cs.LG'', 50), (''cs.AI'', 50)],
        storage_one_old
          \<lparr>papers_file :=
             Stored [(''2312.00009v2'', mk_paper ''2312.00009v2'' ''Old'' 0),
                     (''2401.00001v1'', mk_paper ''2401.00001v1'' ''T'' 1),
                     (''2401.00002v1'', mk_paper ''2401.00002v1'' ''U'' 2)],
           seen_file := Stored {''2401.00002v1'', ''2401.00001v1'', ''2312.00009v2''},
           status_file := Stored (success_status now (length two_papers) 2)\<rparr>,
        Inr (length two_papers, 2))"
proof -
  have cfg: "load_config storage_one_old
       = Inr [\<lparr>category = ''cs.CV'', enabled = True, max_results = 50\<rparr>,
              \<lparr>category = ''cs.LG'', enabled = True, max_results = 50\<rparr>,
              \<lparr>category = ''cs.AI'', enabled = True, max_results = 50\<rparr>]"
    by (simp add: load_config_def storage_one_old_def empty_storage_def default_max_results_def)
  have ls: "load_seen_ids storage_one_old = Inr {''2312.00009v2''}"
    by (simp add: load_seen_ids_def storage_one_old_def)
  have lp: "load_papers storage_one_old
              = Inr [(''2312.00009v2'', mk_paper ''2312.00009v2'' ''Old'' 0)]"
    by (simp add: load_papers_def storage_one_old_def)
  have m: "merge_papers two_papers [(''2312.00009v2'', mk_paper ''2312.00009v2'' ''Old'' 0)]
             {''2312.00009v2''} 0
           = ([(''2312.00009v2'', mk_paper ''2312.00009v2'' ''Old'' 0),
               (''2401.00001v1'', mk_paper ''2401.00001v1'' ''T'' 1),
               (''2401.00002v1'', mk_paper ''2401.00002v1'' ''U'' 2)],
              {''2401.00002v1'', ''2401.00001v1'', ''2312.00009v2''}, 2)"
    by (simp add: two_papers_def mk_paper_def numeral_2_eq_2)
  show ?thesis
    using fetch_merge_success[OF cfg fetch_only_cv [of two_papers] ls lp m, of now] by simp
qed

lemma fetch_merge_seen_grows:
  assumes "fetch_merge up now st = (reqs, st', r)"
  shows "case load_seen_ids st of
           Inr S \<Rightarrow> (\<exists>S'. load_seen_ids st' = Inr S' \<and> S \<subseteq> S')
         | Inl e \<Rightarrow> load_seen_ids st' = Inl e"
proof (cases r)
  case (Inl e)
  with assms have "st' = st"
    by (simp add: fetch_merge_InlD)
  then show ?thesis
    by (simp split: sum.splits)
next
  case (Inr v)
  from fetch_merge_InrD[OF assms[unfolded Inr]]
  obtain cands seen ex ex' seen' k where
    ls: "load_seen_ids st = Inr seen" and
    m: "merge_papers cands ex seen 0 = (ex', seen', k)" and
    st': "st' = st\<lparr>papers_file := Stored ex', seen_file := Stored seen',
                    status_file := Stored (success_status now (length cands) k)\<rparr>"
    by auto
  have "seen' = seen \<union> paper_id ` set cands"
    using m by (rule merge_papers_seen)
  then show ?thesis
    using ls st' by (simp add: load_seen_ids_def)
qed

lemma mark_all_seen_grows:
  "case load_seen_ids st of
     Inr S \<Rightarrow> (\<exists>S'. load_seen_ids (fst (mark_all_seen st)) = Inr S' \<and> S \<subseteq> S')
   | Inl e \<Rightarrow> load_seen_ids (fst (mark_all_seen st)) = Inl e"
  by (auto simp: mark_all_seen_def load_seen_ids_def save_seen_ids_def save_papers_def
           split: sum.splits json_file.splits)

section \<open>The claims\<close>

text \<open>
  C1. After a cycle, the stored record's \<open>is_new\<close> flag should be true exactly when its
  identifier was absent from the seen set before the merge step began, also when the
  identifier occurs more than once among the candidates. The code misses that case: on a
  fresh installation, with a paper listed under both \<^verbatim>\<open>cs.CV\<close> and \<^verbatim>\<open>cs.LG\<close>, the
  identifier is not in the seen set before the merge, the cycle counts one new paper, and
  the record it stores is flagged as not new. Both entry points behave so.
\<close>

theorem C1_cross_listed_paper_stored_not_new:
  "load_seen_ids empty_storage = Inr {} \<and>
   (case fetch_papers_now up_cross_listed 0 empty_storage of
      (reqs, st', r) \<Rightarrow>
        r = Inr \<lparr>resp_status = ''success'', papers_fetched = 2, resp_new_papers = 1\<rparr> \<and>
        map_option is_new (map_of (projr (load_papers st')) ''2401.00001v1'') = Some False) \<and>
   (case periodic_fetch up_cross_listed 0 empty_storage of
      (reqs, st') \<Rightarrow>
        map_option new_papers (projr (load_status st')) = Some 1 \<and>
        map_option is_new (map_of (projr (load_papers st')) ''2401.00001v1'') = Some False)"
  by (simp add: fetch_papers_now_def periodic_fetch_def fetch_merge_cross_listed
        load_empty_storage load_papers_def load_status_def success_status_def)

text \<open>
  C2, as the spec states it: when the fetcher fails for one enabled category, the cycle
  still invokes it for the remaining enabled categories and merges what they returned.
  It does not: with the default configuration and \<^verbatim>\<open>cs.CV\<close> failing, the only request made
  is the one for \<^verbatim>\<open>cs.CV\<close>, although the upstream would have answered \<^verbatim>\<open>cs.LG\<close>, and no
  record is stored.
\<close>

theorem C2_counterexample:
  "up_cv_down [(''cs.CV'', 50)] (''cs.LG'', 50) = Inr [mk_paper ''2401.00002v1'' ''U'' 2] \<and>
   fst (periodic_fetch up_cv_down 0 empty_storage) = [(''cs.CV'', 50)] \<and>
   load_papers (snd (periodic_fetch up_cv_down 0 empty_storage)) = Inr [] \<and>
   fst (fetch_papers_now up_cv_down 0 empty_storage) = [(''cs.CV'', 50)] \<and>
   load_papers (fst (snd (fetch_papers_now up_cv_down 0 empty_storage))) = Inr []"
  unfolding periodic_fetch_def fetch_papers_now_def fetch_merge_cv_down
  by (simp add: load_papers_def empty_storage_def save_status_def up_cv_down_def)

text \<open>
  C2, amended: when the fetcher fails for an enabled category \<open>c\<close>, after the categories
  before it were fetched, the request for \<open>c\<close> is the last one made (the categories after
  it are not requested), the papers already collected are dropped and the storage is
  left as it was but for the status: the scheduled tick saves an error status, the
  manual trigger raises with status code 500.
\<close>

theorem C2_fetch_failure_aborts_cycle:
  assumes "load_config st = Inr (pre @ c # post)"
    and "enabled c"
    and "fetch_categories up pre [] [] = (reqs, Inr got)"
    and "up reqs (category c, max_results c) = Inl e"
  shows "periodic_fetch up now st
           = (reqs @ [(category c, max_results c)], save_status (error_status now e) st) \<and>
         fetch_papers_now up now st
           = (reqs @ [(category c, max_results c)], st, Inl (HTTPException 500 (str_exn e)))"
proof -
  have "fetch_categories up (pre @ c # post) [] []
          = (reqs @ [(category c, max_results c)], Inl e)"
    using assms(2-4) by (simp add: fetch_categories_append)
  then have "fetch_merge up now st = (reqs @ [(category c, max_results c)], st, Inl e)"
    using assms(1) by (simp add: fetch_merge_def)
  then show ?thesis
    by (simp add: periodic_fetch_def fetch_papers_now_def)
qed

theorem C2_fetch_failure_aborts_cycle_witness:
  "periodic_fetch up_cv_down 7 (empty_storage\<lparr>config_file := Stored
       [\<lparr>category = ''cs.AI'', enabled = True, max_results = 5\<rparr>,
        \<lparr>category = ''cs.CV'', enabled = True, max_results = 10\<rparr>,
        \<lparr>category = ''cs.LG'', enabled = True, max_results = 20\<rparr>]\<rparr>)
     = ([(''cs.AI'', 5), (''cs.CV'', 10)],
        save_status (error_status 7 (Exception ''503: ArXiv API error: 503''))
          (empty_storage\<lparr>config_file := Stored
             [\<lparr>category = ''cs.AI'', enabled = True, max_results = 5\<rparr>,
              \<lparr>category = ''cs.CV'', enabled = True, max_results = 10\<rparr>,
              \<lparr>category = ''cs.LG'', enabled = True, max_results = 20\<rparr>]\<rparr>))"
  using C2_fetch_failure_aborts_cycle
    [of "empty_storage\<lparr>config_file := Stored
           [\<lparr>category = ''cs.AI'', enabled = True, max_results = 5\<rparr>,
            \<lparr>category = ''cs.CV'', enabled = True, max_results = 10\<rparr>,
            \<lparr>category = ''cs.LG'', enabled = True, max_results = 20\<rparr>]\<rparr>"
        "[\<lparr>category = ''cs.AI'', enabled = True, max_results = 5\<rparr>]"
        "\<lparr>category = ''cs.CV'', enabled = True, max_results = 10\<rparr>"
        "[\<lparr>category = ''cs.LG'', enabled = True, max_results = 20\<rparr>]"
        up_cv_down "[(''cs.AI'', 5)]" "[mk_paper ''2401.00002v1'' ''U'' 2]"
        "Exception ''503: ArXiv API error: 503''" 7]
  by (simp add: load_config_def empty_storage_def up_cv_down_def)

text \<open>
  C3, as the spec states it: for both entry points, a failure during steps 1 to 6 ends
  with an error status persisted and without raising. The manual trigger does neither:
  with \<^verbatim>\<open>cs.CV\<close> failing on a fresh installation, \<^verbatim>\<open>fetch_papers_now\<close> leaves the status
  file absent and raises.
\<close>

theorem C3_counterexample:
  "load_status (fst (snd (fetch_papers_now up_cv_down 0 empty_storage))) = Inr None \<and>
   snd (snd (fetch_papers_now up_cv_down 0 empty_storage))
     = Inl (HTTPException 500 ''503: ArXiv API error: 503'')"
  unfolding fetch_papers_now_def fetch_merge_cv_down
  by (simp add: load_status_def empty_storage_def)

text \<open>
  C3, amended: when the body of the cycle fails with exception \<open>e\<close>, the scheduled tick
  returns normally, leaving the storage as it was except for the status, which is an
  error status carrying \<^verbatim>\<open>str(e)\<close>; the manual trigger leaves the whole storage as it
  was and raises \<^verbatim>\<open>HTTPException(500, str(e))\<close>.
\<close>

theorem C3_failure_handling:
  assumes "fetch_merge up now st = (reqs, st', Inl e)"
  shows "periodic_fetch up now st = (reqs, st\<lparr>status_file := Stored (error_status now e)\<rparr>) \<and>
         status (error_status now e) = ''error'' \<and>
         message (error_status now e) = str_exn e \<and>
         fetch_papers_now up now st = (reqs, st, Inl (HTTPException 500 (str_exn e)))"
proof -
  have "st' = st"
    using assms by (rule fetch_merge_InlD)
  with assms show ?thesis
    by (simp add: periodic_fetch_def fetch_papers_now_def save_status_def error_status_def)
qed

theorem C3_failure_handling_witness:
  "periodic_fetch up_cv_down 3 empty_storage
     = ([(''cs.CV'', 50)],
        empty_storage\<lparr>status_file :=
          Stored (error_status 3 (Exception ''503: ArXiv API error: 503''))\<rparr>) \<and>
   status (error_status 3 (Exception ''503: ArXiv API error: 503'')) = ''error'' \<and>
   message (error_status 3 (Exception ''503: ArXiv API error: 503''))
     = ''503: ArXiv API error: 503'' \<and>
   fetch_papers_now up_cv_down 3 empty_storage
     = ([(''cs.CV'', 50)], empty_storage,
        Inl (HTTPException 500 ''503: ArXiv API error: 503''))"
  using C3_failure_handling [OF fetch_merge_cv_down [of 3]]
  by simp

text \<open>
  C4. A cycle succeeds; a second cycle is then run, in which the fetcher returns
  candidates with the same identifiers. The second cycle succeeds, leaves the seen set
  as the first one left it, and reports zero new papers in the status it saves and in
  the response of the manual trigger.
\<close>

theorem C4_second_cycle_idempotent:
  assumes "fetch_merge up1 now1 st = (reqs1, st1, Inr r1)"
    and "load_config st = Inr cfg"
    and "fetch_categories up1 cfg [] [] = (reqs1, Inr cands1)"
    and "fetch_categories up2 cfg [] [] = (reqs2, Inr cands2)"
    and "paper_id ` set cands2 = paper_id ` set cands1"
  shows "\<exists>st2.
           fetch_merge up2 now2 st1 = (reqs2, st2, Inr (length cands2, 0)) \<and>
           load_seen_ids st2 = load_seen_ids st1 \<and>
           load_status st2 = Inr (Some (success_status now2 (length cands2) 0)) \<and>
           new_papers (success_status now2 (length cands2) 0) = 0 \<and>
           periodic_fetch up2 now2 st1 = (reqs2, st2) \<and>
           fetch_papers_now up2 now2 st1
             = (reqs2, st2,
                Inr \<lparr>resp_status = ''success'', papers_fetched = int (length cands2),
                     resp_new_papers = 0\<rparr>)"
proof -
  from fetch_merge_InrD[OF assms(1)] assms(2,3)
  obtain seen ex ex1 seen1 k where
    m1: "merge_papers cands1 ex seen 0 = (ex1, seen1, k)" and
    st1: "st1 = st\<lparr>papers_file := Stored ex1, seen_file := Stored seen1,
                    status_file := Stored (success_status now1 (length cands1) k)\<rparr>"
    by auto
  have seen1: "seen1 = seen \<union> paper_id ` set cands1"
    using m1 by (rule merge_papers_seen)
  have cfg1: "load_config st1 = Inr cfg"
    using assms(2) st1 by (simp add: load_config_def)
  have ls1: "load_seen_ids st1 = Inr seen1" and lp1: "load_papers st1 = Inr ex1"
    using st1 by (simp_all add: load_seen_ids_def load_papers_def)
  have "paper_id ` set cands2 \<subseteq> seen1"
    using seen1 assms(5) by simp
  then obtain ex2 where m2: "merge_papers cands2 ex1 seen1 0 = (ex2, seen1, 0)"
    using merge_papers_seen_all by blast
  let ?st2 = "st1\<lparr>papers_file := Stored ex2, seen_file := Stored seen1,
                  status_file := Stored (success_status now2 (length cands2) 0)\<rparr>"
  have fm: "fetch_merge up2 now2 st1 = (reqs2, ?st2, Inr (length cands2, 0))"
    using fetch_merge_success[OF cfg1 assms(4) ls1 lp1 m2] .
  have "load_seen_ids ?st2 = load_seen_ids st1"
    using ls1 by (simp add: load_seen_ids_def)
  moreover have "load_status ?st2 = Inr (Some (success_status now2 (length cands2) 0))"
    by (simp add: load_status_def)
  moreover have "new_papers (success_status now2 (length cands2) 0) = 0"
    by (simp add: success_status_def)
  moreover have "periodic_fetch up2 now2 st1 = (reqs2, ?st2)"
    using fm by (simp add: periodic_fetch_def)
  moreover have "fetch_papers_now up2 now2 st1
                   = (reqs2, ?st2,
                      Inr \<lparr>resp_status = ''success'', papers_fetched = int (length cands2),
                           resp_new_papers = 0\<rparr>)"
    using fm by (simp add: fetch_papers_now_def)
  ultimately show ?thesis
    using fm by blast
qed

theorem C4_second_cycle_idempotent_witness:
  "\<exists>st2.
     fetch_merge (up_only_cv two_papers) 2
       (empty_storage
          \<lparr>papers_file :=
             Stored [(''2401.00001v1'', mk_paper ''2401.00001v1'' ''T'' 1),
                     (''2401.00002v1'', mk_paper ''2401.00002v1'' ''U'' 2)],
           seen_file := Stored {''2401.00002v1'', ''2401.00001v1''},
           status_file := Stored (success_status 1 (length two_papers) 2)\<rparr>)
       = ([(''cs.CV'', 50), (''cs.LG'', 50), (''cs.AI'', 50)], st2, Inr (length two_papers, 0)) \<and>
     load_seen_ids st2 = Inr {''2401.00002v1'', ''2401.00001v1''} \<and>
     new_papers (success_status 2 (length two_papers) 0) = 0"
proof -
  from C4_second_cycle_idempotent
    [OF fetch_merge_two_papers [of 1] default_config_empty_storage
        fetch_only_cv [of two_papers] fetch_only_cv [of two_papers] refl, of 2]
  obtain st2 where
    "fetch_merge (up_only_cv two_papers) 2
       (empty_storage
          \<lparr>papers_file :=
             Stored [(''2401.00001v1'', mk_paper ''2401.00001v1'' ''T'' 1),
                     (''2401.00002v1'', mk_paper ''2401.00002v1'' ''U'' 2)],
           seen_file := Stored {''2401.00002v1'', ''2401.00001v1''},
           status_file := Stored (success_status 1 (length two_papers) 2)\<rparr>)
       = ([(''cs.CV'', 50), (''cs.LG'', 50), (''cs.AI'', 50)], st2, Inr (length two_papers, 0))"
    and "load_seen_ids st2
           = load_seen_ids
               (empty_storage
                  \<lparr>papers_file :=
                     Stored [(''2401.00001v1'', mk_paper ''2401.00001v1'' ''T'' 1),
                             (''2401.00002v1'', mk_paper ''2401.00002v1'' ''U'' 2)],
                   seen_file := Stored {''2401.00002v1'', ''2401.00001v1''},
                   status_file := Stored (success_status 1 (length two_papers) 2)\<rparr>)"
    and "new_papers (success_status 2 (length two_papers) 0) = 0"
    by blast
  then show ?thesis
    by (simp add: load_seen_ids_def)
qed

text \<open>
  C5. When the configuration file does not exist, \<open>load_config\<close> returns the three
  default categories \<^verbatim>\<open>cs.CV\<close>, \<^verbatim>\<open>cs.LG\<close>, \<^verbatim>\<open>cs.AI\<close> in that order, each enabled and with
  \<open>max_results = 50\<close>.
\<close>

theorem C5_default_config:
  assumes "config_file st = Missing"
  shows "load_config st =
           Inr [\<lparr>category = ''cs.CV'', enabled = True, max_results = 50\<rparr>,
                \<lparr>category = ''cs.LG'', enabled = True, max_results = 50\<rparr>,
                \<lparr>category = ''cs.AI'', enabled = True, max_results = 50\<rparr>]"
  using assms by (simp add: load_config_def default_max_results_def)

theorem C5_default_config_witness:
  "config_file empty_storage = Missing \<and>
   load_config empty_storage =
     Inr [\<lparr>category = ''cs.CV'', enabled = True, max_results = 50\<rparr>,
          \<lparr>category = ''cs.LG'', enabled = True, max_results = 50\<rparr>,
          \<lparr>category = ''cs.AI'', enabled = True, max_results = 50\<rparr>]"
proof -
  have h: "config_file empty_storage = Missing"
    by (simp add: empty_storage_def)
  show ?thesis
    using h C5_default_config [OF h] by simp
qed

text \<open>
  C6. After clearing, the record mapping is empty and listing the records returns the
  empty sequence, the seen set is empty, and the status is the \<^verbatim>\<open>cleared\<close> marker. A
  cycle run next, in which the fetcher succeeds, takes the new branch for every
  identifier among its candidates: the number of new papers it reports is the number of
  distinct candidate identifiers, whatever had been seen before the clearing.
\<close>

theorem C6_clear_all:
  assumes "load_config st = Inr cfg"
    and "fetch_categories up cfg [] [] = (reqs, Inr cands)"
  shows "load_papers (fst (clear_all_data st)) = Inr [] \<and>
         get_papers (fst (clear_all_data st)) = Inr [] \<and>
         load_seen_ids (fst (clear_all_data st)) = Inr {} \<and>
         load_status (fst (clear_all_data st)) = Inr (Some cleared_status) \<and>
         get_status (fst (clear_all_data st)) = Inr cleared_status \<and>
         status cleared_status = ''cleared'' \<and>
         (\<exists>st'. fetch_merge up now (fst (clear_all_data st))
                  = (reqs, st', Inr (length cands, card (paper_id ` set cands))) \<and>
                load_seen_ids st' = Inr (paper_id ` set cands))"
proof -
  let ?c = "fst (clear_all_data st)"
  have c: "?c = st\<lparr>papers_file := Stored [], seen_file := Stored {},
                   status_file := Stored cleared_status\<rparr>"
    by (simp add: clear_all_data_def save_papers_def save_seen_ids_def save_status_def)
  have lp: "load_papers ?c = Inr []" and ls: "load_seen_ids ?c = Inr {}"
    and lst: "load_status ?c = Inr (Some cleared_status)"
    unfolding c by (simp_all add: load_papers_def load_seen_ids_def load_status_def)
  have lc: "load_config ?c = Inr cfg"
    unfolding c using assms(1) by (simp add: load_config_def)
  obtain ex' seen' k where m: "merge_papers cands [] {} 0 = (ex', seen', k)"
    by (metis prod_cases3)
  have k: "k = card (paper_id ` set cands)"
    using merge_papers_count[OF _ m] by simp
  have seen': "seen' = paper_id ` set cands"
    using merge_papers_seen[OF m] by simp
  have fm: "fetch_merge up now ?c
              = (reqs,
                 ?c\<lparr>papers_file := Stored ex', seen_file := Stored seen',
                    status_file := Stored (success_status now (length cands) k)\<rparr>,
                 Inr (length cands, k))"
    by (rule fetch_merge_success[OF lc assms(2) ls lp m])
  have "\<exists>st'. fetch_merge up now ?c
                = (reqs, st', Inr (length cands, card (paper_id ` set cands))) \<and>
              load_seen_ids st' = Inr (paper_id ` set cands)"
    using fm k seen' by (simp add: load_seen_ids_def)
  moreover have "get_papers ?c = Inr []"
    using lp by (simp add: get_papers_def sorted_reverse_def)
  moreover have "get_status ?c = Inr cleared_status"
    using lst by (simp add: get_status_def)
  moreover have "status cleared_status = ''cleared''"
    by (simp add: cleared_status_def)
  ultimately show ?thesis
    using lp ls lst by blast
qed

theorem C6_clear_all_witness:
  "get_papers (fst (clear_all_data
      (empty_storage
         \<lparr>papers_file :=
            Stored [(''2401.00001v1'', mk_paper ''2401.00001v1'' ''T'' 1)],
          seen_file := Stored {''2401.00001v1''}\<rparr>))) = Inr [] \<and>
   load_seen_ids (fst (clear_all_data
      (empty_storage
         \<lparr>papers_file :=
            Stored [(''2401.00001v1'', mk_paper ''2401.00001v1'' ''T'' 1)],
          seen_file := Stored {''2401.00001v1''}\<rparr>))) = Inr {} \<and>
   (\<exists>st'. fetch_merge (up_only_cv two_papers) 4 (fst (clear_all_data
      (empty_storage
         \<lparr>papers_file :=
            Stored [(''2401.00001v1'', mk_paper ''2401.00001v1'' ''T'' 1)],
          seen_file := Stored {''2401.00001v1''}\<rparr>)))
      = ([(''cs.CV'', 50), (''cs.LG'', 50), (''cs.AI'', 50)], st',
         Inr (length two_papers, card (paper_id ` set two_papers))))"
proof -
  have cfg: "load_config (empty_storage
         \<lparr>papers_file :=
            Stored [(''2401.00001v1'', mk_paper ''2401.00001v1'' ''T'' 1)],
          seen_file := Stored {''2401.00001v1''}\<rparr>)
       = Inr [\<lparr>category = ''cs.CV'', enabled = True, max_results = 50\<rparr>,
              \<lparr>category = ''cs.LG'', enabled = True, max_results = 50\<rparr>,
              \<lparr>category = ''cs.AI'', enabled = True, max_results = 50\<rparr>]"
    by (simp add: load_config_def empty_storage_def default_max_results_def)
  from C6_clear_all [OF cfg fetch_only_cv [of two_papers], of 4]
  show ?thesis by blast
qed

text \<open>
  C7. Identifier \<open>I\<close> is among the candidates of a cycle that succeeds; in the next cycle
  the fetcher returns a record \<open>p2\<close> for \<open>I\<close> (the last one with that identifier, whatever
  its title and other fields). After that cycle the record stored for \<open>I\<close> is \<open>p2\<close>,
  so it carries the later title, and its flag is false because \<open>I\<close> was in the seen set:
  the flag does not depend on any field of \<open>p2\<close>.
\<close>

theorem C7_overwrite_keeps_seen_rule:
  assumes "fetch_merge up1 now1 st = (reqs1, st1, Inr r1)"
    and "load_config st = Inr cfg"
    and "fetch_categories up1 cfg [] [] = (reqs1, Inr cands1)"
    and "p1 \<in> set cands1"
    and "fetch_categories up2 cfg [] [] = (reqs2, Inr (pre @ p2 # post))"
    and "paper_id p2 = paper_id p1"
    and "paper_id p2 \<notin> paper_id ` set post"
  shows "\<exists>st2 r2 stored.
           fetch_merge up2 now2 st1 = (reqs2, st2, Inr r2) \<and>
           load_papers st2 = Inr stored \<and>
           map_of stored (paper_id p1) = Some (p2\<lparr>is_new := False\<rparr>) \<and>
           title (p2\<lparr>is_new := False\<rparr>) = title p2 \<and>
           is_new (p2\<lparr>is_new := False\<rparr>) = False"
proof -
  from fetch_merge_InrD[OF assms(1)] assms(2,3)
  obtain seen ex ex1 seen1 k where
    m1: "merge_papers cands1 ex seen 0 = (ex1, seen1, k)" and
    st1: "st1 = st\<lparr>papers_file := Stored ex1, seen_file := Stored seen1,
                    status_file := Stored (success_status now1 (length cands1) k)\<rparr>"
    by auto
  have "seen1 = seen \<union> paper_id ` set cands1"
    using m1 by (rule merge_papers_seen)
  then have in_seen: "paper_id p2 \<in> seen1"
    using assms(4,6) by auto
  have cfg1: "load_config st1 = Inr cfg"
    using assms(2) st1 by (simp add: load_config_def)
  have ls1: "load_seen_ids st1 = Inr seen1" and lp1: "load_papers st1 = Inr ex1"
    using st1 by (simp_all add: load_seen_ids_def load_papers_def)
  obtain ex2 seen2 k2 where m2: "merge_papers (pre @ p2 # post) ex1 seen1 0 = (ex2, seen2, k2)"
    by (metis prod_cases3)
  have stored: "map_of ex2 (paper_id p2) = Some (p2\<lparr>is_new := False\<rparr>)"
    using merge_papers_last[OF m2 assms(7)] in_seen by simp
  let ?st2 = "st1\<lparr>papers_file := Stored ex2, seen_file := Stored seen2,
                  status_file := Stored (success_status now2 (length (pre @ p2 # post)) k2)\<rparr>"
  have "fetch_merge up2 now2 st1 = (reqs2, ?st2, Inr (length (pre @ p2 # post), k2))"
    by (rule fetch_merge_success[OF cfg1 assms(5) ls1 lp1 m2])
  moreover have "load_papers ?st2 = Inr ex2"
    by (simp add: load_papers_def)
  ultimately show ?thesis
    using stored assms(6) by auto
qed

theorem C7_overwrite_keeps_seen_rule_witness:
  "\<exists>st2 r2 stored.
     fetch_merge (up_only_cv [mk_paper ''2401.00001v1'' ''T, revised'' 5]) 2
       (empty_storage
          \<lparr>papers_file :=
             Stored [(''2401.00001v1'', mk_paper ''2401.00001v1'' ''T'' 1),
                     (''2401.00002v1'', mk_paper ''2401.00002v1'' ''U'' 2)],
           seen_file := Stored {''2401.00002v1'', ''2401.00001v1''},
           status_file := Stored (success_status 1 (length two_papers) 2)\<rparr>)
       = ([(''cs.CV'', 50), (''cs.LG'', 50), (''cs.AI'', 50)], st2, Inr r2) \<and>
     load_papers st2 = Inr stored \<and>
     map_of stored ''2401.00001v1''
       = Some ((mk_paper ''2401.00001v1'' ''T, revised'' 5)\<lparr>is_new := False\<rparr>)"
proof -
  have mem: "mk_paper ''2401.00001v1'' ''T'' 1 \<in> set two_papers"
    by (simp add: two_papers_def)
  have same: "paper_id (mk_paper ''2401.00001v1'' ''T, revised'' 5)
                = paper_id (mk_paper ''2401.00001v1'' ''T'' 1)"
    by (simp add: mk_paper_def)
  have last: "paper_id (mk_paper ''2401.00001v1'' ''T, revised'' 5) \<notin> paper_id ` set []"
    by simp
  have f2: "fetch_categories (up_only_cv [mk_paper ''2401.00001v1'' ''T, revised'' 5])
              [\<lparr>category = ''cs.CV'', enabled = True, max_results = 50\<rparr>,
               \<lparr>category = ''cs.LG'', enabled = True, max_results = 50\<rparr>,
               \<lparr>category = ''cs.AI'', enabled = True, max_results = 50\<rparr>] [] []
            = ([(''cs.CV'', 50), (''cs.LG'', 50), (''cs.AI'', 50)],
               Inr ([] @ mk_paper ''2401.00001v1'' ''T, revised'' 5 # []))"
    using fetch_only_cv [of "[mk_paper ''2401.00001v1'' ''T, revised'' 5]"] by simp
  from C7_overwrite_keeps_seen_rule
    [OF fetch_merge_two_papers [of 1] default_config_empty_storage
        fetch_only_cv [of two_papers] mem f2 same last, of 2]
  show ?thesis
    by (auto simp: mk_paper_def)
qed

text \<open>
  C8. Whatever record mapping is stored, listing the records returns all of them, each
  as often as it is stored, ordered by \<open>updated\<close> from newest to oldest.
\<close>

theorem C8_get_papers_sorted:
  assumes "load_papers st = Inr papers"
  shows "\<exists>out. get_papers st = Inr out \<and>
               mset out = mset (map snd papers) \<and>
               sorted_wrt (\<lambda>a b. updated a \<ge> updated b) out"
  using assms
  by (simp add: get_papers_def sorted_reverse_mset sorted_reverse_sorted)

theorem C8_get_papers_sorted_witness:
  "\<exists>out. get_papers (empty_storage\<lparr>papers_file :=
             Stored [(''2401.00001v1'', mk_paper ''2401.00001v1'' ''T'' 1),
                     (''2401.00002v1'', mk_paper ''2401.00002v1'' ''U'' 2)]\<rparr>) = Inr out \<and>
          mset out = mset (map snd [(''2401.00001v1'', mk_paper ''2401.00001v1'' ''T'' 1),
                                    (''2401.00002v1'', mk_paper ''2401.00002v1'' ''U'' 2)]) \<and>
          sorted_wrt (\<lambda>a b. updated a \<ge> updated b) out"
  using C8_get_papers_sorted
    [of "empty_storage\<lparr>papers_file :=
           Stored [(''2401.00001v1'', mk_paper ''2401.00001v1'' ''T'' 1),
                   (''2401.00002v1'', mk_paper ''2401.00002v1'' ''U'' 2)]\<rparr>"
        "[(''2401.00001v1'', mk_paper ''2401.00001v1'' ''T'' 1),
          (''2401.00002v1'', mk_paper ''2401.00002v1'' ''U'' 2)]"]
  by (simp add: load_papers_def)

text \<open>
  C9. Every operation other than clearing leaves the persisted seen set a superset of
  what it was; when the seen file cannot be read, it is left as it is.
\<close>

theorem C9_seen_set_monotone:
  assumes "operation \<noteq> ClearAllData"
  shows "case load_seen_ids (storage s) of
           Inr S \<Rightarrow> (\<exists>S'. load_seen_ids (storage (exec operation s)) = Inr S' \<and> S \<subseteq> S')
         | Inl e \<Rightarrow> load_seen_ids (storage (exec operation s)) = Inl e"
proof (cases operation)
  case (FetchPapersNow up now)
  obtain reqs st' r where fm: "fetch_merge up now (storage s) = (reqs, st', r)"
    by (metis prod_cases3)
  then have e: "storage (exec operation s) = st'"
    using FetchPapersNow by (simp add: fetch_papers_now_def split: sum.splits prod.splits)
  show ?thesis
    unfolding e by (rule fetch_merge_seen_grows[OF fm])
next
  case (PeriodicFetch up now)
  obtain reqs st' r where fm: "fetch_merge up now (storage s) = (reqs, st', r)"
    by (metis prod_cases3)
  then have e: "load_seen_ids (storage (exec operation s)) = load_seen_ids st'"
    using PeriodicFetch
    by (simp add: periodic_fetch_def save_status_def load_seen_ids_def split: sum.splits)
  show ?thesis
    unfolding e by (rule fetch_merge_seen_grows[OF fm])
next
  case MarkAllSeen
  then have e: "storage (exec operation s) = fst (mark_all_seen (storage s))"
    by simp
  show ?thesis
    unfolding e by (rule mark_all_seen_grows)
next
  case ClearAllData
  with assms show ?thesis
    by simp
qed (simp_all add: toggle_auto_fetch_def update_config_def save_config_def load_seen_ids_def
       split: sum.splits json_file.splits)

theorem C9_seen_set_monotone_witness:
  "MarkAllSeen \<noteq> ClearAllData \<and>
   load_seen_ids (storage (exec MarkAllSeen
     \<lparr>storage = empty_storage
        \<lparr>papers_file := Stored [(''2401.00001v1'', mk_paper ''2401.00001v1'' ''T'' 1)],
         seen_file := Stored {''2312.00009v2''}\<rparr>,
      auto_fetch_enabled = True\<rparr>)) = Inr {''2401.00001v1'', ''2312.00009v2''}"
proof -
  have h: "MarkAllSeen \<noteq> ClearAllData"
    by simp
  from C9_seen_set_monotone [OF h,
    of "\<lparr>storage = empty_storage
          \<lparr>papers_file := Stored [(''2401.00001v1'', mk_paper ''2401.00001v1'' ''T'' 1)],
           seen_file := Stored {''2312.00009v2''}\<rparr>,
        auto_fetch_enabled = True\<rparr>"]
  show ?thesis
    by (simp add: mark_all_seen_def load_seen_ids_def load_papers_def save_seen_ids_def
          save_papers_def empty_storage_def)
qed

text \<open>
  C10. A cycle that completes its merge step removes no stored record: every key of
  the stored mapping is still a key afterwards, and every key that is not the identifier
  of a candidate maps to what it mapped to before. Both entry points leave the storage
  that the cycle produced.
\<close>

theorem C10_cycle_keeps_records:
  assumes "fetch_merge up now st = (reqs, st', Inr r)"
    and "load_config st = Inr cfg"
    and "fetch_categories up cfg [] [] = (reqs, Inr cands)"
    and "load_papers st = Inr ex"
  shows "\<exists>ex'. load_papers st' = Inr ex' \<and>
               fst ` set ex \<subseteq> fst ` set ex' \<and>
               (\<forall>k. k \<notin> paper_id ` set cands \<longrightarrow> map_of ex' k = map_of ex k) \<and>
               snd (periodic_fetch up now st) = st' \<and>
               fst (snd (fetch_papers_now up now st)) = st'"
proof -
  from fetch_merge_InrD[OF assms(1)] assms(2-4)
  obtain seen ex' seen' k where
    m: "merge_papers cands ex seen 0 = (ex', seen', k)" and
    st': "st' = st\<lparr>papers_file := Stored ex', seen_file := Stored seen',
                    status_file := Stored (success_status now (length cands) k)\<rparr>"
    by auto
  have "load_papers st' = Inr ex'"
    using st' by (simp add: load_papers_def)
  moreover have "fst ` set ex \<subseteq> fst ` set ex'"
    using merge_papers_keys[OF m] by simp
  moreover have "\<forall>k. k \<notin> paper_id ` set cands \<longrightarrow> map_of ex' k = map_of ex k"
    using merge_papers_other[OF m] by simp
  moreover have "snd (periodic_fetch up now st) = st'"
    using assms(1) by (simp add: periodic_fetch_def)
  moreover have "fst (snd (fetch_papers_now up now st)) = st'"
    using assms(1) by (simp add: fetch_papers_now_def split: prod.splits)
  ultimately show ?thesis
    by blast
qed

theorem C10_cycle_keeps_records_witness:
  "\<exists>ex'. load_papers
          (storage_one_old
             \<lparr>papers_file :=
                Stored [(''2312.00009v2'', mk_paper ''2312.00009v2'' ''Old'' 0),
                        (''2401.00001v1'', mk_paper ''2401.00001v1'' ''T'' 1),
                        (''2401.00002v1'', mk_paper ''2401.00002v1'' ''U'' 2)],
              seen_file := Stored {''2401.00002v1'', ''2401.00001v1'', ''2312.00009v2''},
              status_file := Stored (success_status 9 (length two_papers) 2)\<rparr>) = Inr ex' \<and>
         fst ` set [(''2312.00009v2'', mk_paper ''2312.00009v2'' ''Old'' 0)] \<subseteq> fst ` set ex' \<and>
         map_of ex' ''2312.00009v2'' = Some (mk_paper ''2312.00009v2'' ''Old'' 0)"
proof -
  have cfg: "load_config storage_one_old
       = Inr [\<lparr>category = ''cs.CV'', enabled = True, max_results = 50\<rparr>,
              \<lparr>category = ''cs.LG'', enabled = True, max_results = 50\<rparr>,
              \<lparr>category = ''cs.AI'', enabled = True, max_results = 50\<rparr>]"
    by (simp add: load_config_def storage_one_old_def empty_storage_def default_max_results_def)
  have lp: "load_papers storage_one_old
              = Inr [(''2312.00009v2'', mk_paper ''2312.00009v2'' ''Old'' 0)]"
    by (simp add: load_papers_def storage_one_old_def)
  have notin: "''2312.00009v2'' \<notin> paper_id ` set two_papers"
    by (simp add: two_papers_def mk_paper_def)
  from C10_cycle_keeps_records
    [OF fetch_merge_one_old [of 9] cfg fetch_only_cv [of two_papers] lp] notin
  show ?thesis
    by auto
qed

end
